theory Spec2Isabelle
  imports Complex_Main "HOL-Library.Char_ord" "HOL-Library.List_Lexorder"
begin

section \<open>Python values and the built-ins the handlers call\<close>

text \<open>
  The handlers of \<^verbatim>\<open>backend/app.py\<close> receive JSON-decoded values and query-string
  texts and look at them only through \<^verbatim>\<open>str()\<close>, \<^verbatim>\<open>int()\<close>, \<^verbatim>\<open>float()\<close>,
  \<^verbatim>\<open>.strip()\<close> and \<^verbatim>\<open>.lower()\<close>.

  A Python float is a finite value, an infinity or a NaN. A finite double is represented
  by the real number it denotes, so the comparisons of the source are exact; rounding a
  decimal literal or a large integer to the nearest double is not computed. Strings are
  byte strings: the functions below treat ASCII as Python does and leave other bytes alone.
\<close>

datatype pyfloat = Fin real | PosInf | NegInf | NaN

text \<open>
  A value found in a JSON object. \<open>PFloat f t\<close> is the double \<open>f\<close> with the text \<open>t\<close>
  that \<^verbatim>\<open>str()\<close> gives for it, and \<open>PCompound t\<close> is a JSON array or object with its
  text: the handlers never look inside either, and the printing algorithms are not
  modelled.
\<close>

datatype pyval =
    PNone
  | PBool bool
  | PInt int
  | PFloat pyfloat string
  | PStr string
  | PCompound string

definition isspace :: "char \<Rightarrow> bool" where
  "isspace c \<longleftrightarrow> c \<in> set [CHR 0x09, CHR 0x0A, CHR 0x0B, CHR 0x0C, CHR 0x0D,
                         CHR 0x1C, CHR 0x1D, CHR 0x1E, CHR 0x1F, CHR 0x20]"

definition strip :: "string \<Rightarrow> string" where
  "strip s = rev (dropWhile isspace (rev (dropWhile isspace s)))"

definition lower_char :: "char \<Rightarrow> char" where
  "lower_char c =
     (if CHR ''A'' \<le> c \<and> c \<le> CHR ''Z'' then char_of (of_char c + (32::nat)) else c)"

definition lower :: "string \<Rightarrow> string" where
  "lower s = map lower_char s"

definition isdigit :: "char \<Rightarrow> bool" where
  "isdigit c \<longleftrightarrow> CHR ''0'' \<le> c \<and> c \<le> CHR ''9''"

definition digit_val :: "char \<Rightarrow> nat" where
  "digit_val c = of_char c - 48"

text \<open>The grammar \<^verbatim>\<open>digit (["_"] digit)*\<close> of Python's numeric literals.\<close>

fun digitpart :: "string \<Rightarrow> bool" where
  "digitpart [] = False"
| "digitpart [c] = isdigit c"
| "digitpart (c # d # cs) =
     (isdigit c \<and> (if d = CHR ''_'' then digitpart cs else digitpart (d # cs)))"

definition digits_val :: "string \<Rightarrow> nat" where
  "digits_val s = foldl (\<lambda>a c. 10 * a + digit_val c) 0 (filter (\<lambda>c. c \<noteq> CHR ''_'') s)"

definition is_sign :: "char \<Rightarrow> bool" where
  "is_sign c \<longleftrightarrow> c = CHR ''+'' \<or> c = CHR ''-''"

definition unsigned :: "string \<Rightarrow> string" where
  "unsigned t = (case t of [] \<Rightarrow> [] | c # cs \<Rightarrow> if is_sign c then cs else t)"

definition negative :: "string \<Rightarrow> bool" where
  "negative t = (case t of [] \<Rightarrow> False | c # cs \<Rightarrow> c = CHR ''-'')"

text \<open>
  \<^verbatim>\<open>int(s)\<close> on a string, base ten: \<open>None\<close> stands for the \<^verbatim>\<open>ValueError\<close>.
  The bound that recent interpreters put on the number of digits is not modelled.
\<close>

definition int_of_str :: "string \<Rightarrow> int option" where
  "int_of_str s =
     (let t = strip s; u = unsigned t
      in if digitpart u
         then Some (if negative t then - int (digits_val u) else int (digits_val u))
         else None)"

text \<open>
  The decimal part of \<^verbatim>\<open>float(s)\<close>: an optional integer part, an optional fraction
  and an optional exponent, with at least one digit before the exponent.
\<close>

definition is_e :: "char \<Rightarrow> bool" where
  "is_e c \<longleftrightarrow> c = CHR ''e'' \<or> c = CHR ''E''"

definition scale10 :: "nat \<Rightarrow> int \<Rightarrow> real" where
  "scale10 m k = (if 0 \<le> k then real m * 10 ^ nat k else real m / 10 ^ nat (- k))"

definition decimal_of_str :: "string \<Rightarrow> real option" where
  "decimal_of_str u =
     (let m = takeWhile (\<lambda>c. \<not> is_e c) u;
          x = dropWhile (\<lambda>c. \<not> is_e c) u;
          ip = takeWhile (\<lambda>c. c \<noteq> CHR ''.'') m;
          fp = drop 1 (dropWhile (\<lambda>c. c \<noteq> CHR ''.'') m);
          xs = drop 1 x;
          xd = unsigned xs;
          mant_ok = ((ip = [] \<or> digitpart ip) \<and> (fp = [] \<or> digitpart fp)
                     \<and> (ip \<noteq> [] \<or> fp \<noteq> []));
          exp_ok = (x = [] \<or> digitpart xd);
          e = (if x = [] then 0
               else if negative xs then - int (digits_val xd) else int (digits_val xd));
          nfrac = length (filter (\<lambda>c. c \<noteq> CHR ''_'') fp)
      in if mant_ok \<and> exp_ok
         then Some (scale10 (digits_val (ip @ fp)) (e - int nfrac))
         else None)"

text \<open>\<^verbatim>\<open>float(s)\<close> on a string: \<open>None\<close> stands for the \<^verbatim>\<open>ValueError\<close>.\<close>

definition float_of_str :: "string \<Rightarrow> pyfloat option" where
  "float_of_str s =
     (let t = strip s; u = unsigned t; l = lower u
      in if l = ''inf'' \<or> l = ''infinity'' then Some (if negative t then NegInf else PosInf)
         else if l = ''nan'' then Some NaN
         else (case decimal_of_str u of
                 None \<Rightarrow> None
               | Some r \<Rightarrow> Some (Fin (if negative t then - r else r))))"

text \<open>
  \<^verbatim>\<open>int(v)\<close>: \<open>None\<close> stands for any exception (\<^verbatim>\<open>TypeError\<close>, \<^verbatim>\<open>ValueError\<close>,
  \<^verbatim>\<open>OverflowError\<close>). A finite float is truncated towards zero.
\<close>

fun py_int :: "pyval \<Rightarrow> int option" where
  "py_int PNone = None"
| "py_int (PBool b) = Some (if b then 1 else 0)"
| "py_int (PInt n) = Some n"
| "py_int (PFloat (Fin r) t) = Some (if 0 \<le> r then \<lfloor>r\<rfloor> else \<lceil>r\<rceil>)"
| "py_int (PFloat f t) = None"
| "py_int (PStr s) = int_of_str s"
| "py_int (PCompound t) = None"

text \<open>
  \<^verbatim>\<open>float(v)\<close>: an integer too large for a double raises \<^verbatim>\<open>OverflowError\<close>.
\<close>

fun py_float :: "pyval \<Rightarrow> pyfloat option" where
  "py_float PNone = None"
| "py_float (PBool b) = Some (Fin (if b then 1 else 0))"
| "py_float (PInt n) =
     (if \<bar>n\<bar> < 2 ^ 1024 - 2 ^ 970 then Some (Fin (real_of_int n)) else None)"
| "py_float (PFloat f t) = Some f"
| "py_float (PStr s) = float_of_str s"
| "py_float (PCompound t) = None"

definition digit_char :: "nat \<Rightarrow> char" where
  "digit_char d = char_of (48 + d)"

function show_nat :: "nat \<Rightarrow> string" where
  "show_nat n = (if n < 10 then [digit_char n] else show_nat (n div 10) @ [digit_char (n mod 10)])"
  by pat_completeness auto
termination
  by (relation "measure id") auto

definition show_int :: "int \<Rightarrow> string" where
  "show_int i = (if i < 0 then CHR ''-'' # show_nat (nat (- i)) else show_nat (nat i))"

fun py_str :: "pyval \<Rightarrow> string" where
  "py_str PNone = ''None''"
| "py_str (PBool b) = (if b then ''True'' else ''False'')"
| "py_str (PInt n) = show_int n"
| "py_str (PFloat f t) = t"
| "py_str (PStr s) = s"
| "py_str (PCompound t) = t"

text \<open>The comparisons \<^verbatim>\<open><\<close> and \<^verbatim>\<open>>\<close> of floats: false whenever a NaN is involved.\<close>

fun float_lt :: "pyfloat \<Rightarrow> pyfloat \<Rightarrow> bool" where
  "float_lt NaN b = False"
| "float_lt a NaN = False"
| "float_lt (Fin a) (Fin b) = (a < b)"
| "float_lt a NegInf = False"
| "float_lt NegInf b = True"
| "float_lt PosInf b = False"
| "float_lt a PosInf = True"

definition float_gt :: "pyfloat \<Rightarrow> pyfloat \<Rightarrow> bool" where
  "float_gt a b = float_lt b a"

section \<open>Constants and the record type\<close>

definition PLACEHOLDER_IMG :: string where
  "PLACEHOLDER_IMG = ''https://placehold.co/160x220?text=Book''"

definition ALLOWED_PAGE_SIZES :: "int set" where
  "ALLOWED_PAGE_SIZES = {5, 10, 20, 50}"

definition ALLOWED_SORT_FIELDS :: "string set" where
  "ALLOWED_SORT_FIELDS = {''title'', ''author'', ''year'', ''rating'', ''price'', ''created_at''}"

definition CATEGORY_OPTIONS :: "string list" where
  "CATEGORY_OPTIONS =
     [''Fantasy'', ''Sci-Fi'', ''Classic'', ''Horror'', ''Mystery'', ''Non-Fiction'', ''Other'']"

text \<open>
  The dictionary \<^verbatim>\<open>cleaned\<close> that the validator builds, and the table row
  \<^verbatim>\<open>Book\<close>, which has the same seven columns plus the primary key and the creation time.
\<close>

record cleaned =
  title :: string
  author :: string
  year :: int
  category :: string
  rating :: pyfloat
  price :: pyfloat
  image_url :: string

record book = cleaned +
  id_pk :: int
  created_at :: nat

section \<open>The validator\<close>

type_synonym payload = "string \<rightharpoonup> pyval"

text \<open>\<^verbatim>\<open>data.get(key, default)\<close>\<close>

definition get :: "payload \<Rightarrow> string \<Rightarrow> pyval \<Rightarrow> pyval" where
  "get data k d = (case data k of None \<Rightarrow> d | Some v \<Rightarrow> v)"

definition safe_int :: "pyval \<Rightarrow> int option \<Rightarrow> int option" where
  "safe_int val dflt = (case py_int val of Some n \<Rightarrow> Some n | None \<Rightarrow> dflt)"

definition safe_float :: "pyval \<Rightarrow> pyfloat option \<Rightarrow> pyfloat option" where
  "safe_float val dflt = (case py_float val of Some f \<Rightarrow> Some f | None \<Rightarrow> dflt)"

definition MSG_TITLE :: string where "MSG_TITLE = ''Title is required.''"
definition MSG_AUTHOR :: string where "MSG_AUTHOR = ''Author is required.''"
definition MSG_YEAR :: string where "MSG_YEAR = ''Year is required (number).''"
definition MSG_YEAR_RANGE :: string where "MSG_YEAR_RANGE = ''Year must be between 0 and 2100.''"
definition MSG_RATING :: string where "MSG_RATING = ''Rating must be a number.''"
definition MSG_RATING_RANGE :: string where
  "MSG_RATING_RANGE = ''Rating must be 0'' @ [CHR 0xE2, CHR 0x80, CHR 0x93] @ ''5.''"
definition MSG_PRICE :: string where "MSG_PRICE = ''Price must be a number.''"
definition MSG_PRICE_RANGE :: string where "MSG_PRICE_RANGE = ''Price must be >= 0.''"

text \<open>
  \<^verbatim>\<open>validate_book_payload\<close> returns the pair \<^verbatim>\<open>(message, None)\<close> or
  \<^verbatim>\<open>(None, cleaned)\<close>: here \<open>Inl message\<close> or \<open>Inr cleaned\<close>.
\<close>

definition validate_book_payload :: "payload \<Rightarrow> string + cleaned" where
  "validate_book_payload data =
     (let title_v = strip (py_str (get data ''title'' (PStr '''')));
          author_v = strip (py_str (get data ''author'' (PStr '''')));
          year_v = safe_int (get data ''year'' PNone) None;
          category_s = strip (py_str (get data ''category'' (PStr ''Other'')));
          category_v = (if category_s = [] then ''Other'' else category_s);
          rating_v = safe_float (get data ''rating'' (PInt 0)) None;
          price_v = safe_float (get data ''price'' (PInt 0)) None;
          image_url_v = strip (py_str (get data ''imageUrl'' (PStr '''')))
      in if title_v = [] then Inl MSG_TITLE
         else if author_v = [] then Inl MSG_AUTHOR
         else case year_v of
           None \<Rightarrow> Inl MSG_YEAR
         | Some y \<Rightarrow>
             if y < 0 \<or> y > 2100 then Inl MSG_YEAR_RANGE
             else let category_c = (if category_v \<notin> set CATEGORY_OPTIONS then ''Other''
                                    else category_v)
               in case rating_v of
                 None \<Rightarrow> Inl MSG_RATING
               | Some r \<Rightarrow>
                   if float_lt r (Fin 0) \<or> float_gt r (Fin 5) then Inl MSG_RATING_RANGE
                   else case price_v of
                     None \<Rightarrow> Inl MSG_PRICE
                   | Some p \<Rightarrow>
                       if float_lt p (Fin 0) then Inl MSG_PRICE_RANGE
                       else let image_url_c = (if image_url_v = [] then PLACEHOLDER_IMG
                                                else image_url_v)
                         in Inr \<lparr>title = title_v, author = author_v, year = y,
                                 category = category_c, rating = r, price = p,
                                 image_url = image_url_c\<rparr>)"

section \<open>The store and the responses\<close>

text \<open>
  The table \<^verbatim>\<open>books\<close> is the list of its rows in insertion order, with the next value
  of the primary-key sequence. Limits of the database (column widths, the range of
  \<^verbatim>\<open>OFFSET\<close>) are not modelled.
\<close>

record store =
  rows :: "book list"
  next_id :: int

text \<open>\<^verbatim>\<open>round(x, 2)\<close> and \<^verbatim>\<open>round(x)\<close>: to the nearest, ties to the even neighbour.\<close>

definition py_round :: "real \<Rightarrow> int" where
  "py_round x =
     (let f = \<lfloor>x\<rfloor>; d = x - of_int f
      in if d < 1 / 2 then f else if 1 / 2 < d then f + 1 else if even f then f else f + 1)"

fun py_round2 :: "pyfloat \<Rightarrow> pyfloat" where
  "py_round2 (Fin r) = Fin (of_int (py_round (r * 100)) / 100)"
| "py_round2 f = f"

text \<open>\<^verbatim>\<open>x or 0.0\<close> on a float: only zero is false.\<close>

definition or_zero :: "pyfloat \<Rightarrow> pyfloat" where
  "or_zero f = (if f = Fin 0 then Fin 0 else f)"

text \<open>
  The dictionary \<^verbatim>\<open>book_to_dict\<close> builds. The creation time stays a number (its
  ISO text is not modelled); the column is not nullable, so the time is always present.
\<close>

record book_dict =
  d_id :: int
  d_title :: string
  d_author :: string
  d_year :: int
  d_category :: string
  d_rating :: pyfloat
  d_price :: pyfloat
  d_imageUrl :: string
  d_createdAt :: "nat option"

definition book_to_dict :: "book \<Rightarrow> book_dict" where
  "book_to_dict b =
     \<lparr>d_id = id_pk b, d_title = title b, d_author = author b, d_year = year b,
      d_category = category b,
      d_rating = py_round2 (or_zero (rating b)),
      d_price = py_round2 (or_zero (price b)),
      d_imageUrl = image_url b,
      d_createdAt = Some (created_at b)\<rparr>"

record listing =
  items :: "book_dict list"
  total :: int
  page :: int
  pageSize :: int
  totalPages :: int

record stats_dict =
  stats_total :: int
  stats_pageSize :: int
  averagePublicationYear :: int
  averageRating :: pyfloat
  totalValue :: pyfloat
  countByCategory :: "(string \<times> int) list"

text \<open>
  A response is a status code with a JSON body; \<open>Unhandled\<close> is the page the framework
  sends with status 500 when the handler raises.
\<close>

datatype resp_body =
    ErrorJson string
  | BookJson book_dict
  | OkJson
  | ListingJson listing
  | StatsJson stats_dict
  | Unhandled

record response =
  status :: nat
  body :: resp_body

text \<open>
  \<^verbatim>\<open>request.get_json(silent=True) or {}\<close>: a JSON object, a false value (no body,
  invalid JSON, \<^verbatim>\<open>null\<close>, \<^verbatim>\<open>false\<close>, zero, an empty string or array), which becomes
  the empty object, or any other value, on which \<^verbatim>\<open>data.get\<close> raises
  \<^verbatim>\<open>AttributeError\<close>.
\<close>

datatype json_body = JObject payload | JFalsy | JTruthy

fun get_json_or_empty :: "json_body \<Rightarrow> payload option" where
  "get_json_or_empty (JObject data) = Some data"
| "get_json_or_empty JFalsy = Some Map.empty"
| "get_json_or_empty JTruthy = None"

section \<open>Create, update and delete\<close>

text \<open>\<^verbatim>\<open>Book(**cleaned)\<close> with the key and the creation time the insert assigns.\<close>

definition new_book :: "cleaned \<Rightarrow> int \<Rightarrow> nat \<Rightarrow> book" where
  "new_book c i now = cleaned.extend c \<lparr>id_pk = i, created_at = now\<rparr>"

text \<open>The loop \<^verbatim>\<open>for k, v in cleaned.items(): setattr(b, k, v)\<close>.\<close>

definition set_cleaned :: "cleaned \<Rightarrow> book \<Rightarrow> book" where
  "set_cleaned c b =
     b\<lparr>title := title c, author := author c, year := year c, category := category c,
       rating := rating c, price := price c, image_url := image_url c\<rparr>"

text \<open>\<^verbatim>\<open>db.query(Book).filter(Book.id == book_id).first()\<close>\<close>

definition first_by_id :: "int \<Rightarrow> book list \<Rightarrow> book option" where
  "first_by_id i bs = find (\<lambda>b. id_pk b = i) bs"

fun update_row :: "int \<Rightarrow> (book \<Rightarrow> book) \<Rightarrow> book list \<Rightarrow> book list" where
  "update_row i f [] = []"
| "update_row i f (b # bs) = (if id_pk b = i then f b # bs else b # update_row i f bs)"

fun delete_row :: "int \<Rightarrow> book list \<Rightarrow> book list" where
  "delete_row i [] = []"
| "delete_row i (b # bs) = (if id_pk b = i then bs else b # delete_row i bs)"

definition create_book :: "json_body \<Rightarrow> nat \<Rightarrow> store \<Rightarrow> response \<times> store" where
  "create_book request now db =
     (case get_json_or_empty request of
        None \<Rightarrow> (\<lparr>status = 500, body = Unhandled\<rparr>, db)
      | Some data \<Rightarrow>
          (case validate_book_payload data of
             Inl err \<Rightarrow> (\<lparr>status = 400, body = ErrorJson err\<rparr>, db)
           | Inr c \<Rightarrow>
               let b = new_book c (next_id db) now
               in (\<lparr>status = 201, body = BookJson (book_to_dict b)\<rparr>,
                   db\<lparr>rows := rows db @ [b], next_id := next_id db + 1\<rparr>)))"

definition update_book :: "int \<Rightarrow> json_body \<Rightarrow> store \<Rightarrow> response \<times> store" where
  "update_book book_id request db =
     (case get_json_or_empty request of
        None \<Rightarrow> (\<lparr>status = 500, body = Unhandled\<rparr>, db)
      | Some data \<Rightarrow>
          (case validate_book_payload data of
             Inl err \<Rightarrow> (\<lparr>status = 400, body = ErrorJson err\<rparr>, db)
           | Inr c \<Rightarrow>
               (case first_by_id book_id (rows db) of
                  None \<Rightarrow> (\<lparr>status = 404, body = ErrorJson ''Book not found.''\<rparr>, db)
                | Some b \<Rightarrow>
                    (\<lparr>status = 200, body = BookJson (book_to_dict (set_cleaned c b))\<rparr>,
                     db\<lparr>rows := update_row book_id (set_cleaned c) (rows db)\<rparr>))))"

definition delete_book :: "int \<Rightarrow> store \<Rightarrow> response \<times> store" where
  "delete_book book_id db =
     (case first_by_id book_id (rows db) of
        None \<Rightarrow> (\<lparr>status = 404, body = ErrorJson ''Book not found.''\<rparr>, db)
      | Some b \<Rightarrow>
          (\<lparr>status = 200, body = OkJson\<rparr>, db\<lparr>rows := delete_row book_id (rows db)\<rparr>))"

section \<open>Listing\<close>

type_synonym args = "string \<rightharpoonup> string"

text \<open>\<^verbatim>\<open>request.args.get(key, default)\<close>: a query-string value is always text.\<close>

definition arg :: "args \<Rightarrow> string \<Rightarrow> pyval \<Rightarrow> pyval" where
  "arg a k d = (case a k of None \<Rightarrow> d | Some s \<Rightarrow> PStr s)"

text \<open>
  The operator \<^verbatim>\<open>ILIKE\<close> of the database: \<^verbatim>\<open>%\<close> matches any run of characters,
  \<^verbatim>\<open>_\<close> any one character, and letters compare without case. The first argument is
  the pattern. An escape character of the pattern language is not modelled.
\<close>

fun like :: "string \<Rightarrow> string \<Rightarrow> bool" where
  "like [] [] = True"
| "like [] (c # cs) = False"
| "like (p # ps) [] = (p = CHR ''%'' \<and> like ps [])"
| "like (p # ps) (c # cs) =
     (if p = CHR ''%'' then like ps (c # cs) \<or> like (p # ps) cs
      else (p = CHR ''_'' \<or> p = c) \<and> like ps cs)"

definition ilike :: "string \<Rightarrow> string \<Rightarrow> bool" where
  "ilike pat s = like (lower pat) (lower s)"

text \<open>
  \<^verbatim>\<open>ORDER BY\<close>: the order of the column's values, with the database's order on floats
  (a NaN after every number). The order among equal keys is the database's choice; here
  it is the one of an insertion sort.
\<close>

fun float_rank :: "pyfloat \<Rightarrow> nat" where
  "float_rank NegInf = 0"
| "float_rank (Fin r) = 1"
| "float_rank PosInf = 2"
| "float_rank NaN = 3"

fun float_le :: "pyfloat \<Rightarrow> pyfloat \<Rightarrow> bool" where
  "float_le (Fin a) (Fin b) = (a \<le> b)"
| "float_le a b = (float_rank a \<le> float_rank b)"

definition col_le :: "string \<Rightarrow> book \<Rightarrow> book \<Rightarrow> bool" where
  "col_le sort_by a b =
     (if sort_by = ''title'' then title a \<le> title b
      else if sort_by = ''author'' then author a \<le> author b
      else if sort_by = ''year'' then year a \<le> year b
      else if sort_by = ''rating'' then float_le (rating a) (rating b)
      else if sort_by = ''price'' then float_le (price a) (price b)
      else created_at a \<le> created_at b)"

fun insert_by :: "('a \<Rightarrow> 'a \<Rightarrow> bool) \<Rightarrow> 'a \<Rightarrow> 'a list \<Rightarrow> 'a list" where
  "insert_by le x [] = [x]"
| "insert_by le x (y # ys) = (if le x y then x # y # ys else y # insert_by le x ys)"

definition sort_with :: "('a \<Rightarrow> 'a \<Rightarrow> bool) \<Rightarrow> 'a list \<Rightarrow> 'a list" where
  "sort_with le xs = foldr (insert_by le) xs []"

definition order_by :: "string \<Rightarrow> string \<Rightarrow> book list \<Rightarrow> book list" where
  "order_by sort_by sort_dir bs =
     (if sort_dir = ''asc'' then sort_with (col_le sort_by) bs
      else sort_with (\<lambda>a b. col_le sort_by b a) bs)"

text \<open>
  The first part of \<^verbatim>\<open>get_books\<close>: reading and normalising the six parameters.
  \<open>None\<close> would be the \<^verbatim>\<open>TypeError\<close> of the comparison \<^verbatim>\<open>None < 1\<close>.
\<close>

record listing_params =
  lp_page :: int
  lp_page_size :: int
  lp_q :: string
  lp_category :: string
  lp_sort_by :: string
  lp_sort_dir :: string

definition listing_args :: "args \<Rightarrow> listing_params option" where
  "listing_args a =
     (let page_v = safe_int (arg a ''page'' (PInt 1)) (Some 1);
          page_size_v = safe_int (arg a ''pageSize'' (PInt 10)) (Some 10);
          q_v = strip (py_str (arg a ''q'' (PStr '''')));
          category_v = strip (py_str (arg a ''category'' (PStr '''')));
          sort_by_v = strip (py_str (arg a ''sortBy'' (PStr ''created_at'')));
          sort_dir_v = lower (strip (py_str (arg a ''sortDir'' (PStr ''desc''))))
      in case page_v of
           None \<Rightarrow> None
         | Some p \<Rightarrow>
             Some \<lparr>lp_page = (if p < 1 then 1 else p),
                   lp_page_size =
                     (case page_size_v of
                        None \<Rightarrow> 10
                      | Some n \<Rightarrow> if n \<notin> ALLOWED_PAGE_SIZES then 10 else n),
                   lp_q = q_v,
                   lp_category = category_v,
                   lp_sort_by =
                     (if sort_by_v \<notin> ALLOWED_SORT_FIELDS then ''created_at'' else sort_by_v),
                   lp_sort_dir =
                     (if sort_dir_v \<notin> {''asc'', ''desc''} then ''desc'' else sort_dir_v)\<rparr>)"

text \<open>The filters of the query, in the order the source adds them.\<close>

definition filter_q :: "string \<Rightarrow> book list \<Rightarrow> book list" where
  "filter_q q bs =
     (if q \<noteq> [] then
        (let pat = ''%'' @ q @ ''%''
         in filter (\<lambda>b. ilike pat (title b) \<or> ilike pat (author b)) bs)
      else bs)"

definition filter_category :: "string \<Rightarrow> book list \<Rightarrow> book list" where
  "filter_category c bs = (if c \<noteq> [] then filter (\<lambda>b. category b = c) bs else bs)"

text \<open>
  The second part of \<^verbatim>\<open>get_books\<close>: the query, the count, the page of rows and the
  page number reported.
\<close>

definition run_listing :: "listing_params \<Rightarrow> book list \<Rightarrow> listing" where
  "run_listing p bs =
     (let query = filter_category (lp_category p) (filter_q (lp_q p) bs);
          total_v = int (length query);
          ordered = order_by (lp_sort_by p) (lp_sort_dir p) query;
          offset = (lp_page p - 1) * lp_page_size p;
          items_v = take (nat (lp_page_size p)) (drop (nat offset) ordered);
          total_pages =
            (if total_v \<noteq> 0
             then max 1 \<lceil>real_of_int total_v / real_of_int (lp_page_size p)\<rceil>
             else 1);
          page_v = (if lp_page p > total_pages \<and> total_v > 0 then total_pages else lp_page p)
      in \<lparr>items = map book_to_dict items_v, total = total_v, page = page_v,
          pageSize = lp_page_size p, totalPages = total_pages\<rparr>)"

definition get_books :: "args \<Rightarrow> store \<Rightarrow> response" where
  "get_books a db =
     (case listing_args a of
        None \<Rightarrow> \<lparr>status = 500, body = Unhandled\<rparr>
      | Some p \<Rightarrow> \<lparr>status = 200, body = ListingJson (run_listing p (rows db))\<rparr>)"

section \<open>Statistics\<close>









section \<open>The validator's inputs and the rules of the specification\<close>

text \<open>
  The seven values \<^verbatim>\<open>validate_book_payload\<close> reads from the payload, as the source
  computes them in its first lines.
\<close>

definition title_in :: "payload \<Rightarrow> string" where
  "title_in data = strip (py_str (get data ''title'' (PStr '''')))"

definition author_in :: "payload \<Rightarrow> string" where
  "author_in data = strip (py_str (get data ''author'' (PStr '''')))"

definition year_in :: "payload \<Rightarrow> int option" where
  "year_in data = py_int (get data ''year'' PNone)"

definition category_in :: "payload \<Rightarrow> string" where
  "category_in data = strip (py_str (get data ''category'' (PStr ''Other'')))"

definition rating_in :: "payload \<Rightarrow> pyfloat option" where
  "rating_in data = py_float (get data ''rating'' (PInt 0))"

definition price_in :: "payload \<Rightarrow> pyfloat option" where
  "price_in data = py_float (get data ''price'' (PInt 0))"

definition image_url_in :: "payload \<Rightarrow> string" where
  "image_url_in data = strip (py_str (get data ''imageUrl'' (PStr '''')))"











section \<open>The filters and aggregates of the specification\<close>


text \<open>The listing or the statistics a response carries, if it carries one.\<close>

definition listing_of :: "response \<Rightarrow> listing option" where
  "listing_of r = (case body r of ListingJson l \<Rightarrow> Some l | _ \<Rightarrow> None)"

definition stats_of :: "response \<Rightarrow> stats_dict option" where
  "stats_of r = (case body r of StatsJson s \<Rightarrow> Some s | _ \<Rightarrow> None)"

section \<open>The primary key\<close>

text \<open>
  The database keeps the ids of the rows distinct and below the next value of the
  sequence. The handlers look a record up by the first row with its id; under this
  invariant that is the only one.
\<close>

definition pk_unique :: "store \<Rightarrow> bool" where
  "pk_unique db \<longleftrightarrow>
     distinct (map id_pk (rows db)) \<and> list_all (\<lambda>b. id_pk b < next_id db) (rows db)"

section \<open>Properties of the validator\<close>

lemma safe_int_None: "safe_int v None = py_int v"
  by (simp add: safe_int_def split: option.splits)

lemma safe_float_None: "safe_float v None = py_float v"
  by (simp add: safe_float_def split: option.splits)

text \<open>The validator as a decision list over the values it reads.\<close>

lemma validate_unfold:
  "validate_book_payload data =
     (if title_in data = [] then Inl MSG_TITLE
      else if author_in data = [] then Inl MSG_AUTHOR
      else case year_in data of
        None \<Rightarrow> Inl MSG_YEAR
      | Some y \<Rightarrow>
          if y < 0 \<or> y > 2100 then Inl MSG_YEAR_RANGE
          else case rating_in data of
            None \<Rightarrow> Inl MSG_RATING
          | Some r \<Rightarrow>
              if float_lt r (Fin 0) \<or> float_gt r (Fin 5) then Inl MSG_RATING_RANGE
              else case price_in data of
                None \<Rightarrow> Inl MSG_PRICE
              | Some p \<Rightarrow>
                  if float_lt p (Fin 0) then Inl MSG_PRICE_RANGE
                  else Inr \<lparr>title = title_in data, author = author_in data, year = y,
                            category = (if category_in data \<in> set CATEGORY_OPTIONS
                                        then category_in data else ''Other''),
                            rating = r, price = p,
                            image_url = (if image_url_in data = [] then PLACEHOLDER_IMG
                                         else image_url_in data)\<rparr>)"
  unfolding validate_book_payload_def Let_def title_in_def author_in_def year_in_def
    rating_in_def price_in_def category_in_def image_url_in_def safe_int_None safe_float_None
  by (auto simp: CATEGORY_OPTIONS_def split: option.splits)


text \<open>Whether validation fails, and with which message, depends on five values only.\<close>

lemma validate_error_cong:
  assumes "title_in d' = title_in d" "author_in d' = author_in d" "year_in d' = year_in d"
    "rating_in d' = rating_in d" "price_in d' = price_in d"
  shows "validate_book_payload d' = Inl e \<longleftrightarrow> validate_book_payload d = Inl e"
  using assms by (simp add: validate_unfold split: option.splits)


lemma strip_Nil: "strip [] = []"
  by (simp add: strip_def)

lemma get_absent: "data k = None \<Longrightarrow> get data k d = d"
  by (simp add: get_def)

lemma get_upd_same: "get (data(k \<mapsto> v)) k d = v"
  by (simp add: get_def)

lemma get_upd_other: "k' \<noteq> k \<Longrightarrow> get (data(k := v)) k' d = get data k' d"
  by (simp add: get_def)



text \<open>
  Claim C8. When validation passes, the category of the cleaned record is a member of the
  fixed set: the trimmed text of the payload's value if that is a member, and
  \<^verbatim>\<open>Other\<close> otherwise, also when the key is absent; the image URL is the trimmed text
  of the payload's value, or the placeholder when that is empty or the key is absent.
  Neither value can cause an error: replacing or removing either key changes no error.
\<close>

theorem category_and_image_fallbacks:
  "(validate_book_payload data = Inr c \<longrightarrow>
      category c \<in> set CATEGORY_OPTIONS
      \<and> category c = (if category_in data \<in> set CATEGORY_OPTIONS then category_in data
                       else ''Other'')
      \<and> (data ''category'' = None \<longrightarrow> category c = ''Other'')
      \<and> image_url c = (if image_url_in data = [] then PLACEHOLDER_IMG else image_url_in data)
      \<and> (data ''imageUrl'' = None \<longrightarrow> image_url c = PLACEHOLDER_IMG))
   \<and> (validate_book_payload (data(''category'' := v)) = Inl e
        \<longleftrightarrow> validate_book_payload data = Inl e)
   \<and> (validate_book_payload (data(''imageUrl'' := v)) = Inl e
        \<longleftrightarrow> validate_book_payload data = Inl e)"
proof -
  have cat: "category_in data = ''Other''" if "data ''category'' = None"
    using that by (simp add: category_in_def get_absent strip_def isspace_def)
  have img: "image_url_in data = []" if "data ''imageUrl'' = None"
    using that by (simp add: image_url_in_def get_absent strip_Nil)
  have other: "''Other'' \<in> set CATEGORY_OPTIONS"
    by (simp add: CATEGORY_OPTIONS_def)
  have ok: "validate_book_payload data = Inr c \<longrightarrow>
      category c \<in> set CATEGORY_OPTIONS
      \<and> category c = (if category_in data \<in> set CATEGORY_OPTIONS then category_in data
                       else ''Other'')
      \<and> (data ''category'' = None \<longrightarrow> category c = ''Other'')
      \<and> image_url c = (if image_url_in data = [] then PLACEHOLDER_IMG else image_url_in data)
      \<and> (data ''imageUrl'' = None \<longrightarrow> image_url c = PLACEHOLDER_IMG)"
    using cat img other
    by (auto simp: validate_unfold split: option.splits if_splits)
  have c: "validate_book_payload (data(''category'' := v)) = Inl e
        \<longleftrightarrow> validate_book_payload data = Inl e"
    by (rule validate_error_cong)
      (simp_all add: title_in_def author_in_def year_in_def rating_in_def price_in_def
        get_upd_other)
  have i: "validate_book_payload (data(''imageUrl'' := v)) = Inl e
        \<longleftrightarrow> validate_book_payload data = Inl e"
    by (rule validate_error_cong)
      (simp_all add: title_in_def author_in_def year_in_def rating_in_def price_in_def
        get_upd_other)
  from ok c i show ?thesis
    by blast
qed

theorem category_and_image_fallbacks_witness:
  "validate_book_payload
     [''title'' \<mapsto> PStr ''Dune'', ''author'' \<mapsto> PStr ''Frank Herbert'', ''year'' \<mapsto> PInt 1965,
      ''category'' \<mapsto> PStr ''Nonexistent'', ''imageUrl'' \<mapsto> PStr ''  ''] =
     Inr \<lparr>title = ''Dune'', author = ''Frank Herbert'', year = 1965, category = ''Other'',
          rating = Fin 0, price = Fin 0, image_url = PLACEHOLDER_IMG\<rparr>
   \<and> category_in
     [''title'' \<mapsto> PStr ''Dune'', ''author'' \<mapsto> PStr ''Frank Herbert'', ''year'' \<mapsto> PInt 1965,
      ''category'' \<mapsto> PStr ''Nonexistent'', ''imageUrl'' \<mapsto> PStr ''  ''] \<notin> set CATEGORY_OPTIONS"
proof -
  let ?d = "[''title'' \<mapsto> PStr ''Dune'', ''author'' \<mapsto> PStr ''Frank Herbert'',
             ''year'' \<mapsto> PInt 1965, ''category'' \<mapsto> PStr ''Nonexistent'',
             ''imageUrl'' \<mapsto> PStr ''  '']"
  let ?c = "\<lparr>title = ''Dune'', author = ''Frank Herbert'', year = 1965, category = ''Other'',
            rating = Fin 0, price = Fin 0, image_url = PLACEHOLDER_IMG\<rparr>"
  have v: "validate_book_payload ?d = Inr ?c"
    by code_simp
  have n: "category_in ?d \<notin> set CATEGORY_OPTIONS"
    by code_simp
  from category_and_image_fallbacks [of ?d ?c] v n show ?thesis
    by simp
qed



section \<open>Properties of create, update and delete\<close>

text \<open>The cleaned record is a function of the seven values read from the payload.\<close>

lemma validate_cong:
  assumes "title_in d' = title_in d" "author_in d' = author_in d" "year_in d' = year_in d"
    "category_in d' = category_in d" "rating_in d' = rating_in d" "price_in d' = price_in d"
    "image_url_in d' = image_url_in d"
  shows "validate_book_payload d' = validate_book_payload d"
  by (simp only: validate_unfold assms)

lemma validate_default_rating:
  assumes "data ''rating'' = None"
  shows "validate_book_payload (data(''rating'' \<mapsto> PInt 0)) = validate_book_payload data"
  using assms
  by (intro validate_cong)
    (simp_all add: title_in_def author_in_def year_in_def category_in_def rating_in_def
      price_in_def image_url_in_def get_upd_other get_upd_same get_absent)

lemma validate_default_price:
  assumes "data ''price'' = None"
  shows "validate_book_payload (data(''price'' \<mapsto> PInt 0)) = validate_book_payload data"
  using assms
  by (intro validate_cong)
    (simp_all add: title_in_def author_in_def year_in_def category_in_def rating_in_def
      price_in_def image_url_in_def get_upd_other get_upd_same get_absent)

lemma create_book_cong:
  "validate_book_payload d' = validate_book_payload d \<Longrightarrow>
   create_book (JObject d') now db = create_book (JObject d) now db"
  by (simp add: create_book_def)

lemma update_book_cong:
  "validate_book_payload d' = validate_book_payload d \<Longrightarrow>
   update_book book_id (JObject d') db = update_book book_id (JObject d) db"
  by (simp add: update_book_def)

text \<open>
  Claim C2, as the code has it. Rating and price are optional: a payload without the
  key \<^verbatim>\<open>rating\<close> (or \<^verbatim>\<open>price\<close>) is validated, created and updated exactly as the
  same payload with the number 0 under that key. With both keys absent, validation can
  fail only on the title, the author or the year, and a cleaned record has rating 0.0
  and price 0.0.
\<close>

theorem omitted_rating_price_default_to_zero:
  "(data ''rating'' = None \<longrightarrow>
      validate_book_payload data = validate_book_payload (data(''rating'' \<mapsto> PInt 0))
      \<and> create_book (JObject data) now db
          = create_book (JObject (data(''rating'' \<mapsto> PInt 0))) now db
      \<and> update_book book_id (JObject data) db
          = update_book book_id (JObject (data(''rating'' \<mapsto> PInt 0))) db)
   \<and> (data ''price'' = None \<longrightarrow>
      validate_book_payload data = validate_book_payload (data(''price'' \<mapsto> PInt 0))
      \<and> create_book (JObject data) now db
          = create_book (JObject (data(''price'' \<mapsto> PInt 0))) now db
      \<and> update_book book_id (JObject data) db
          = update_book book_id (JObject (data(''price'' \<mapsto> PInt 0))) db)
   \<and> (data ''rating'' = None \<and> data ''price'' = None \<longrightarrow>
      (\<forall>e. validate_book_payload data = Inl e \<longrightarrow>
             e \<in> {MSG_TITLE, MSG_AUTHOR, MSG_YEAR, MSG_YEAR_RANGE})
      \<and> (\<forall>c. validate_book_payload data = Inr c \<longrightarrow> rating c = Fin 0 \<and> price c = Fin 0))"
proof -
  have r: "rating_in data = Some (Fin 0)" if "data ''rating'' = None"
    using that by (simp add: rating_in_def get_absent)
  have p: "price_in data = Some (Fin 0)" if "data ''price'' = None"
    using that by (simp add: price_in_def get_absent)
  have both: "(\<forall>e. validate_book_payload data = Inl e \<longrightarrow>
             e \<in> {MSG_TITLE, MSG_AUTHOR, MSG_YEAR, MSG_YEAR_RANGE})
      \<and> (\<forall>c. validate_book_payload data = Inr c \<longrightarrow> rating c = Fin 0 \<and> price c = Fin 0)"
    if "data ''rating'' = None" "data ''price'' = None"
    using r [OF that(1)] p [OF that(2)]
    by (auto simp: validate_unfold float_gt_def split: option.splits if_splits)
  show ?thesis
    using validate_default_rating [of data] validate_default_price [of data]
      create_book_cong [of "data(''rating'' \<mapsto> PInt 0)" data now db]
      create_book_cong [of "data(''price'' \<mapsto> PInt 0)" data now db]
      update_book_cong [of "data(''rating'' \<mapsto> PInt 0)" data book_id db]
      update_book_cong [of "data(''price'' \<mapsto> PInt 0)" data book_id db]
      both
    by simp
qed

theorem omitted_rating_price_default_to_zero_witness:
  "[''title'' \<mapsto> PStr ''Dune'', ''author'' \<mapsto> PStr ''Frank Herbert'', ''year'' \<mapsto> PInt 1965]
     ''rating'' = None
   \<and> validate_book_payload
       [''title'' \<mapsto> PStr ''Dune'', ''author'' \<mapsto> PStr ''Frank Herbert'', ''year'' \<mapsto> PInt 1965]
     = validate_book_payload
       [''title'' \<mapsto> PStr ''Dune'', ''author'' \<mapsto> PStr ''Frank Herbert'', ''year'' \<mapsto> PInt 1965,
        ''rating'' \<mapsto> PInt 0]"
proof -
  let ?d = "[''title'' \<mapsto> PStr ''Dune'', ''author'' \<mapsto> PStr ''Frank Herbert'',
             ''year'' \<mapsto> PInt 1965]"
  have h: "?d ''rating'' = None"
    by simp
  from omitted_rating_price_default_to_zero [of ?d] h show ?thesis
    by simp
qed

text \<open>
  The claim as the specification states it fails: a payload with neither key passes
  validation, and the create handler answers 201 and stores the record.
\<close>

theorem omitted_rating_price_counterexample:
  "[''title'' \<mapsto> PStr ''Dune'', ''author'' \<mapsto> PStr ''Frank Herbert'', ''year'' \<mapsto> PInt 1965]
     ''rating'' = None
   \<and> [''title'' \<mapsto> PStr ''Dune'', ''author'' \<mapsto> PStr ''Frank Herbert'', ''year'' \<mapsto> PInt 1965]
     ''price'' = None
   \<and> create_book
       (JObject [''title'' \<mapsto> PStr ''Dune'', ''author'' \<mapsto> PStr ''Frank Herbert'',
                 ''year'' \<mapsto> PInt 1965])
       7 \<lparr>rows = [], next_id = 1\<rparr> =
     (\<lparr>status = 201,
       body = BookJson
         \<lparr>d_id = 1, d_title = ''Dune'', d_author = ''Frank Herbert'', d_year = 1965,
          d_category = ''Other'', d_rating = Fin 0, d_price = Fin 0,
          d_imageUrl = PLACEHOLDER_IMG, d_createdAt = Some 7\<rparr>\<rparr>,
      \<lparr>rows = [\<lparr>title = ''Dune'', author = ''Frank Herbert'', year = 1965,
                 category = ''Other'', rating = Fin 0, price = Fin 0,
                 image_url = PLACEHOLDER_IMG, id_pk = 1, created_at = 7\<rparr>],
       next_id = 2\<rparr>)"
  by code_simp

text \<open>Facts about the row operations.\<close>

lemma set_cleaned_simps:
  "title (set_cleaned c b) = title c" "author (set_cleaned c b) = author c"
  "year (set_cleaned c b) = year c" "category (set_cleaned c b) = category c"
  "rating (set_cleaned c b) = rating c" "price (set_cleaned c b) = price c"
  "image_url (set_cleaned c b) = image_url c"
  "id_pk (set_cleaned c b) = id_pk b" "created_at (set_cleaned c b) = created_at b"
  by (simp_all add: set_cleaned_def)


lemma map_id_update_row:
  assumes "\<And>x. id_pk (f x) = id_pk x"
  shows "map id_pk (update_row i f bs) = map id_pk bs"
  using assms by (induction bs) auto








section \<open>Properties of the listing\<close>

lemma length_insert_by: "length (insert_by le x xs) = Suc (length xs)"
  by (induction xs) auto

lemma length_sort_with: "length (sort_with le xs) = length xs"
  by (induction xs) (auto simp: sort_with_def length_insert_by)

lemma length_order_by: "length (order_by sort_by sort_dir bs) = length bs"
  by (simp add: order_by_def length_sort_with)












lemma arg_absent: "a k = None \<Longrightarrow> arg a k d = d"
  by (simp add: arg_def)

lemma arg_present: "a k = Some s \<Longrightarrow> arg a k d = PStr s"
  by (simp add: arg_def)


lemma total_pages_at_least_1: "1 \<le> totalPages (run_listing p bs)"
  by (simp add: run_listing_def Let_def)





text \<open>
  A page beyond the last one. The rows are fetched at the offset of the page requested,
  before the page number is clamped: the page reported is the last page, and the items
  are none.
\<close>

lemma overshoot_returns_no_items:
  assumes ps: "0 < lp_page_size p"
    and over: "totalPages (run_listing p bs) < lp_page p"
  shows "items (run_listing p bs) = []"
proof -
  let ?q = "filter_category (lp_category p) (filter_q (lp_q p) bs)"
  let ?t = "int (length ?q)"
  have tp: "\<lceil>real_of_int ?t / real_of_int (lp_page_size p)\<rceil> \<le> totalPages (run_listing p bs)"
    by (simp add: run_listing_def Let_def)
  have "real_of_int ?t / real_of_int (lp_page_size p)
      \<le> real_of_int \<lceil>real_of_int ?t / real_of_int (lp_page_size p)\<rceil>"
    by (rule le_of_int_ceiling)
  also have "\<dots> \<le> real_of_int (lp_page p - 1)"
    using tp over by linarith
  finally have "real_of_int ?t \<le> real_of_int (lp_page p - 1) * real_of_int (lp_page_size p)"
    using ps by (simp add: pos_divide_le_eq)
  then have "?t \<le> (lp_page p - 1) * lp_page_size p"
    by (metis of_int_le_iff of_int_mult)
  then have "length (order_by (lp_sort_by p) (lp_sort_dir p) ?q)
      \<le> nat ((lp_page p - 1) * lp_page_size p)"
    by (simp add: length_order_by)
  then show ?thesis
    by (simp add: run_listing_def Let_def)
qed

text \<open>
  Claim C1 at a concrete request: three records, five per page, page 2 requested. The
  last page is page 1 and holds the three records; the response reports page 1 with an
  empty list of items.
\<close>

theorem overshoot_page_clamped_items_empty:
  "get_books [''page'' \<mapsto> ''2'', ''pageSize'' \<mapsto> ''5'']
     \<lparr>rows = [\<lparr>title = ''Dune'', author = ''Frank Herbert'', year = 1965,
                category = ''Sci-Fi'', rating = Fin 5, price = Fin 9,
                image_url = PLACEHOLDER_IMG, id_pk = 1, created_at = 7\<rparr>,
              \<lparr>title = ''Emma'', author = ''Jane Austen'', year = 1815,
                category = ''Classic'', rating = Fin 4, price = Fin 6,
                image_url = PLACEHOLDER_IMG, id_pk = 2, created_at = 8\<rparr>,
              \<lparr>title = ''Ubik'', author = ''Philip K. Dick'', year = 1969,
                category = ''Sci-Fi'', rating = Fin 4, price = Fin 7,
                image_url = PLACEHOLDER_IMG, id_pk = 3, created_at = 9\<rparr>],
      next_id = 4\<rparr>
   = \<lparr>status = 200,
      body = ListingJson \<lparr>items = [], total = 3, page = 1, pageSize = 5, totalPages = 1\<rparr>\<rparr>"
  by code_simp

theorem overshoot_page_clamped_items_empty_witness:
  "\<exists>l. listing_of (get_books [''page'' \<mapsto> ''2'', ''pageSize'' \<mapsto> ''5'']
     \<lparr>rows = [\<lparr>title = ''Dune'', author = ''Frank Herbert'', year = 1965,
                category = ''Sci-Fi'', rating = Fin 5, price = Fin 9,
                image_url = PLACEHOLDER_IMG, id_pk = 1, created_at = 7\<rparr>,
              \<lparr>title = ''Emma'', author = ''Jane Austen'', year = 1815,
                category = ''Classic'', rating = Fin 4, price = Fin 6,
                image_url = PLACEHOLDER_IMG, id_pk = 2, created_at = 8\<rparr>,
              \<lparr>title = ''Ubik'', author = ''Philip K. Dick'', year = 1969,
                category = ''Sci-Fi'', rating = Fin 4, price = Fin 7,
                image_url = PLACEHOLDER_IMG, id_pk = 3, created_at = 9\<rparr>],
      next_id = 4\<rparr>) = Some l \<and> items l = [] \<and> total l = 3 \<and> page l = totalPages l"
  by (simp add: overshoot_page_clamped_items_empty listing_of_def)

text \<open>The same request for page 1, the last page: its three items, newest first.\<close>

lemma last_page_has_items:
  "map d_id (items (run_listing
     \<lparr>lp_page = 1, lp_page_size = 5, lp_q = [], lp_category = [],
      lp_sort_by = ''created_at'', lp_sort_dir = ''desc''\<rparr>
     [\<lparr>title = ''Dune'', author = ''Frank Herbert'', year = 1965,
       category = ''Sci-Fi'', rating = Fin 5, price = Fin 9,
       image_url = PLACEHOLDER_IMG, id_pk = 1, created_at = 7\<rparr>,
      \<lparr>title = ''Emma'', author = ''Jane Austen'', year = 1815,
       category = ''Classic'', rating = Fin 4, price = Fin 6,
       image_url = PLACEHOLDER_IMG, id_pk = 2, created_at = 8\<rparr>,
      \<lparr>title = ''Ubik'', author = ''Philip K. Dick'', year = 1969,
       category = ''Sci-Fi'', rating = Fin 4, price = Fin 7,
       image_url = PLACEHOLDER_IMG, id_pk = 3, created_at = 9\<rparr>])) = [3, 2, 1]"
  by code_simp

section \<open>Properties of the statistics\<close>











section \<open>Supporting facts: boundaries, NaN and the primary key\<close>

text \<open>The boundary values of the three range rules.\<close>

lemma validation_boundaries:
  "validate_book_payload
     [''title'' \<mapsto> PStr ''T'', ''author'' \<mapsto> PStr ''A'', ''year'' \<mapsto> PInt 2100,
      ''rating'' \<mapsto> PFloat (Fin 5) ''5.0'', ''price'' \<mapsto> PInt 0]
   = Inr \<lparr>title = ''T'', author = ''A'', year = 2100, category = ''Other'',
          rating = Fin 5, price = Fin 0, image_url = PLACEHOLDER_IMG\<rparr>"
  "validate_book_payload
     [''title'' \<mapsto> PStr ''T'', ''author'' \<mapsto> PStr ''A'', ''year'' \<mapsto> PInt 2101]
   = Inl MSG_YEAR_RANGE"
  "validate_book_payload
     [''title'' \<mapsto> PStr ''T'', ''author'' \<mapsto> PStr ''A'', ''year'' \<mapsto> PInt 2100,
      ''rating'' \<mapsto> PFloat (Fin 5.01) ''5.01'']
   = Inl MSG_RATING_RANGE"
  "validate_book_payload
     [''title'' \<mapsto> PStr ''T'', ''author'' \<mapsto> PStr ''A'', ''year'' \<mapsto> PInt 2100,
      ''price'' \<mapsto> PFloat (Fin (- 0.01)) ''-0.01'']
   = Inl MSG_PRICE_RANGE"
  by code_simp+

text \<open>
  The range tests are written with \<^verbatim>\<open><\<close> and \<^verbatim>\<open>>\<close>, which are false on a NaN:
  the text \<^verbatim>\<open>nan\<close> is a number for \<^verbatim>\<open>float()\<close> and passes both tests.
\<close>

lemma nan_rating_is_accepted:
  "validate_book_payload
     [''title'' \<mapsto> PStr ''T'', ''author'' \<mapsto> PStr ''A'', ''year'' \<mapsto> PInt 2000,
      ''rating'' \<mapsto> PStr ''nan'']
   = Inr \<lparr>title = ''T'', author = ''A'', year = 2000, category = ''Other'',
          rating = NaN, price = Fin 0, image_url = PLACEHOLDER_IMG\<rparr>"
  by code_simp

text \<open>The three writing handlers keep the ids distinct.\<close>

lemma first_by_id_None_iff: "first_by_id i bs = None \<longleftrightarrow> i \<notin> id_pk ` set bs"
  by (induction bs) (auto simp: first_by_id_def)

lemma set_delete_row: "set (delete_row i bs) \<subseteq> set bs"
  by (induction bs) auto

lemma ids_delete_row:
  "distinct (map id_pk bs) \<Longrightarrow>
   distinct (map id_pk (delete_row i bs)) \<and> i \<notin> id_pk ` set (delete_row i bs)"
proof (induction bs)
  case Nil
  then show ?case by simp
next
  case (Cons b bs)
  then show ?case
    using set_delete_row [of i bs] by (auto simp: image_iff)
qed

lemma set_update_row:
  assumes "\<And>x. id_pk (f x) = id_pk x"
  shows "id_pk ` set (update_row i f bs) = id_pk ` set bs"
  using map_id_update_row [OF assms, of i bs] by (metis set_map)

lemma create_book_pk_unique:
  assumes "pk_unique db"
  shows "pk_unique (snd (create_book request now db))"
proof -
  have less: "list_all (\<lambda>b. id_pk b < next_id db + 1) (rows db)"
    using assms by (auto simp: pk_unique_def list_all_iff)
  have fresh: "next_id db \<notin> id_pk ` set (rows db)"
    using assms by (auto simp: pk_unique_def list_all_iff)
  show ?thesis
    using assms less fresh
    by (auto simp: create_book_def new_book_def cleaned.defs Let_def pk_unique_def
        split: option.splits sum.splits)
qed

lemma update_book_pk_unique:
  assumes "pk_unique db"
  shows "pk_unique (snd (update_book book_id request db))"
proof -
  have ids: "map id_pk (update_row book_id (set_cleaned c) (rows db)) = map id_pk (rows db)"
    for c
    by (rule map_id_update_row) (simp add: set_cleaned_simps)
  have less: "list_all (\<lambda>b. id_pk b < next_id db) (update_row book_id (set_cleaned c) (rows db))"
    for c
  proof -
    have "list_all (\<lambda>i. i < next_id db) (map id_pk (rows db))"
      using assms by (simp add: pk_unique_def list_all_iff)
    then have "list_all (\<lambda>i. i < next_id db)
        (map id_pk (update_row book_id (set_cleaned c) (rows db)))"
      by (simp only: ids)
    then show ?thesis
      by (simp add: list_all_iff)
  qed
  show ?thesis
    using assms ids less
    by (auto simp: update_book_def pk_unique_def split: option.splits sum.splits)
qed

lemma delete_book_pk_unique:
  assumes "pk_unique db"
  shows "pk_unique (snd (delete_book book_id db))"
  using assms ids_delete_row [of "rows db" book_id] set_delete_row [of book_id "rows db"]
  by (auto simp: delete_book_def pk_unique_def list_all_iff split: option.splits)

text \<open>After a delete that succeeds, the id is gone: a second delete or an update answers 404.\<close>

lemma delete_then_not_found:
  assumes "pk_unique db" and "status (fst (delete_book book_id db)) = 200"
  shows "first_by_id book_id (rows (snd (delete_book book_id db))) = None"
  using assms ids_delete_row [of "rows db" book_id]
  by (auto simp: delete_book_def pk_unique_def first_by_id_None_iff split: option.splits)

end
